theory Spec2Isabelle
  imports Complex_Main
begin

section \<open>Python values: exceptions, except clauses, floats, decimal strings\<close>

text \<open>
  The add-in is Python 2 code run inside ArcMap (\<^verbatim>\<open>e.message\<close>, string except
  clauses). An exception is a class and a message; every function that can raise returns
  \<open>exn + 'a\<close> together with the host state it leaves behind.
\<close>

datatype exn_class = UserWarning | ValueError | ZeroDivisionError | IndexError | ExecuteError

datatype exn = Exn exn_class string

text \<open>
  What stands after \<^verbatim>\<open>except\<close>: a class, or (as in \<^verbatim>\<open>except "Invalid layer!":\<close>)
  a string object. A raised class instance is matched against a class by \<^verbatim>\<open>isinstance\<close>
  and against a string object by identity, so an instance never matches a string clause.
\<close>

datatype except_clause = ExceptStr string | ExceptClass exn_class

fun exc_match :: "exn \<Rightarrow> except_clause \<Rightarrow> bool" where
  "exc_match e (ExceptStr s) = False"
| "exc_match (Exn c m) (ExceptClass c') = (c = c')"

text \<open>A float is a real number or NaN (\<^verbatim>\<open>np.average\<close> of an empty column).\<close>

datatype pyfloat = Fin real | NaN

text \<open>\<^verbatim>\<open>int(x)\<close> of a float truncates towards zero.\<close>

definition py_int :: "real \<Rightarrow> int" where
  "py_int r = (if 0 \<le> r then \<lfloor>r\<rfloor> else \<lceil>r\<rceil>)"

text \<open>The ten decimal digits, in order: a digit's character and a character's digit.\<close>

definition digit_char :: "nat \<Rightarrow> char" where
  "digit_char d = ''0123456789'' ! (d mod 10)"

definition digit_val :: "char \<Rightarrow> nat option" where
  "digit_val c = map_of (zip ''0123456789'' [0, 1, 2, 3, 4, 5, 6, 7, 8, 9]) c"

text \<open>The decimal text of a count, as \<^verbatim>\<open>GetCount_management(...).getOutput(0)\<close> gives it.\<close>

fun show_nat :: "nat \<Rightarrow> string" where
  "show_nat n =
     (if n < 10 then [digit_char n] else show_nat (n div 10) @ [digit_char (n mod 10)])"

declare show_nat.simps [simp del]

fun digits_value :: "string \<Rightarrow> nat \<Rightarrow> nat option" where
  "digits_value [] acc = Some acc"
| "digits_value (c # cs) acc =
     (case digit_val c of None \<Rightarrow> None | Some d \<Rightarrow> digits_value cs (10 * acc + d))"

text \<open>
  \<^verbatim>\<open>float(s)\<close>, on the texts the count can be: a non-empty run of decimal digits is
  its value; anything else is rejected here with \<^verbatim>\<open>ValueError\<close>.
\<close>

definition py_float :: "string \<Rightarrow> exn + real" where
  "py_float s =
     (if s = [] then Inl (Exn ValueError ''could not convert string to float'')
      else case digits_value s 0 of
             None \<Rightarrow> Inl (Exn ValueError ''could not convert string to float'')
           | Some n \<Rightarrow> Inr (real n))"

text \<open>\<^verbatim>\<open>np.average(column)\<close>: the arithmetic mean, NaN on an empty column.\<close>

definition np_average :: "real list \<Rightarrow> pyfloat" where
  "np_average xs = (if xs = [] then NaN else Fin (sum_list xs / real (length xs)))"

section \<open>The host: ArcMap as the add-in sees it\<close>

record extent =
  XMin :: real
  YMin :: real
  XMax :: real
  YMax :: real

definition width :: "extent \<Rightarrow> real" where
  "width e = XMax e - XMin e"

definition height :: "extent \<Rightarrow> real" where
  "height e = YMax e - YMin e"

definition lowerLeft :: "extent \<Rightarrow> real \<times> real" where
  "lowerLeft e = (XMin e, YMin e)"

definition lowerRight :: "extent \<Rightarrow> real \<times> real" where
  "lowerRight e = (XMax e, YMin e)"

definition upperRight :: "extent \<Rightarrow> real \<times> real" where
  "upperRight e = (XMax e, YMax e)"

definition upperLeft :: "extent \<Rightarrow> real \<times> real" where
  "upperLeft e = (XMin e, YMax e)"

text \<open>A polygon: its ring of points and its spatial reference.\<close>

record polygon =
  ring :: "(real \<times> real) list"
  poly_spatref :: string

text \<open>A scatterer of the layer: where it is, and its value in every named field.\<close>

record feature =
  location :: "real \<times> real"
  attr :: "string \<Rightarrow> real"

text \<open>
  A layer of the map: field names, features, spatial reference and the current
  selection (\<open>None\<close>: nothing is selected and every tool sees all features).
\<close>

record layer_rec =
  layer_fields :: "string list"
  features :: "feature list"
  spatialReference :: string
  selection :: "feature list option"

type_synonym layer_id = nat

datatype mapdoc = CurrentMap

text \<open>A numpy array: its shape and its values in row-major order.\<close>

record ndarray =
  shape :: "nat list"
  cells :: "real list"

record raster =
  r_array :: ndarray
  r_lower_left :: "real \<times> real"
  r_x_cell_size :: real
  r_y_cell_size :: real
  r_spatref :: "string option"

record map_layer =
  ml_source :: string
  ml_transparency :: nat

text \<open>What a message box or a print shows. Formatted numbers are kept as values.\<close>

datatype text_out =
  Lit string
  | SelectedWithin string extent
  | AverageInfo int extent pyfloat

record msgbox =
  mb_text :: text_out
  mb_title :: string

text \<open>
  The state of the host that the add-in reads or writes: the layer picked in the table
  of contents, the layers, the geoprocessing environment, the default geodatabase, the
  data frames of the map document, the message boxes shown and the text printed. The
  spatial predicate of \<^verbatim>\<open>SelectLayerByLocation\<close> (\<^verbatim>\<open>"WITHIN"\<close>) and whether a
  new layer supports transparency are the host's own.
\<close>

record host =
  toc_selected :: "layer_id option"
  layer_tab :: "layer_id \<Rightarrow> layer_rec"
  within_rel :: "polygon \<Rightarrow> real \<times> real \<Rightarrow> bool"
  supports_transparency :: bool
  addOutputsToMap :: bool
  overwriteOutput :: bool
  outputCoordinateSystem :: "string option"
  geodatabase :: "string \<rightharpoonup> raster"
  data_frames :: "map_layer list list"
  messages :: "msgbox list"
  printed :: "text_out list"

definition MessageBox :: "text_out \<Rightarrow> string \<Rightarrow> host \<Rightarrow> host" where
  "MessageBox t title h = h\<lparr>messages := messages h @ [\<lparr>mb_text = t, mb_title = title\<rparr>]\<rparr>"

definition py_print :: "text_out \<Rightarrow> host \<Rightarrow> host" where
  "py_print t h = h\<lparr>printed := printed h @ [t]\<rparr>"

text \<open>The rows a tool sees on a layer: the selected ones, or all when nothing is selected.\<close>

definition selected_rows :: "layer_rec \<Rightarrow> feature list" where
  "selected_rows l = (case selection l of None \<Rightarrow> features l | Some fs \<Rightarrow> fs)"

text \<open>The features of a layer that the host's \<^verbatim>\<open>"WITHIN"\<close> relation puts inside a polygon.\<close>

definition features_within :: "host \<Rightarrow> layer_id \<Rightarrow> polygon \<Rightarrow> feature list" where
  "features_within h l poly =
     filter (\<lambda>f. within_rel h poly (location f)) (features (layer_tab h l))"

text \<open>\<^verbatim>\<open>SelectLayerByLocation_management(layer, "WITHIN", poly, 0.0, "NEW_SELECTION")\<close>\<close>

definition SelectLayerByLocation :: "layer_id \<Rightarrow> polygon \<Rightarrow> host \<Rightarrow> host" where
  "SelectLayerByLocation l poly h =
     h\<lparr>layer_tab := (layer_tab h)(l := (layer_tab h l)
          \<lparr>selection := Some (features_within h l poly)\<rparr>)\<rparr>"

text \<open>\<^verbatim>\<open>SelectLayerByAttribute_management(layer, "CLEAR_SELECTION")\<close>\<close>

definition ClearSelection :: "layer_id \<Rightarrow> host \<Rightarrow> host" where
  "ClearSelection l h =
     h\<lparr>layer_tab := (layer_tab h)(l := (layer_tab h l)\<lparr>selection := None\<rparr>)\<rparr>"

text \<open>\<^verbatim>\<open>GetCount_management(layer).getOutput(0)\<close>: the count of the rows, as text.\<close>

definition GetCount :: "layer_id \<Rightarrow> host \<Rightarrow> string" where
  "GetCount l h = show_nat (length (selected_rows (layer_tab h l)))"

text \<open>
  \<^verbatim>\<open>FeatureClassToNumPyArray(layer, names)\<close>: a structured array, one column per
  requested field over the rows of the layer.
\<close>

definition FeatureClassToNumPyArray :: "layer_rec \<Rightarrow> string list \<Rightarrow> (string \<times> real list) list" where
  "FeatureClassToNumPyArray l names = map (\<lambda>n. (n, map (\<lambda>f. attr f n) (selected_rows l))) names"

text \<open>Indexing a structured array by a field name it does not have raises.\<close>

definition field_column :: "(string \<times> real list) list \<Rightarrow> string \<Rightarrow> exn + real list" where
  "field_column arr name =
     (case map_of arr name of
        None \<Rightarrow> Inl (Exn ValueError ''no field of name'')
      | Some col \<Rightarrow> Inr col)"

text \<open>
  \<^verbatim>\<open>raster.save(name)\<close> into the default geodatabase: an existing dataset is replaced
  only when \<^verbatim>\<open>env.overwriteOutput\<close> is set, otherwise the save fails.
\<close>

definition raster_save :: "raster \<Rightarrow> string \<Rightarrow> host \<Rightarrow> (exn + unit) \<times> host" where
  "raster_save r name h =
     (if geodatabase h name \<noteq> None \<and> \<not> overwriteOutput h
      then (Inl (Exn ExecuteError ''dataset already exists''), h)
      else (Inr (), h\<lparr>geodatabase := (geodatabase h)(name \<mapsto> r)\<rparr>))"

section \<open>common/utils.py\<close>

definition verifySqueeSAR :: "host \<Rightarrow> (exn + layer_id \<times> mapdoc) \<times> host" where
  "verifySqueeSAR h =
     (let md = CurrentMap;
          layer = toc_selected h
      in case layer of
           None \<Rightarrow>
             (Inl (Exn UserWarning ''Invalid layer!''),
              MessageBox (Lit ''Select the SqueeSAR layer from the table of content then select an area to evaluate the residual'')
                ''Warning'' h)
         | Some l \<Rightarrow> (Inr (l, md), h))"

text \<open>The rectangle's four corners, closed into a ring of five points.\<close>

definition extent_polygon :: "extent \<Rightarrow> string \<Rightarrow> polygon" where
  "extent_polygon ext spatref =
     (let area = [lowerLeft ext, lowerRight ext, upperRight ext, upperLeft ext, lowerLeft ext]
      in \<lparr>ring = area, poly_spatref = spatref\<rparr>)"

definition selectSqueeSARData :: "extent \<Rightarrow> layer_id \<Rightarrow> host \<Rightarrow> (exn + int \<times> string) \<times> host" where
  "selectSqueeSARData ext layer h =
     (let spatref = spatialReference (layer_tab h layer);
          poly = extent_polygon ext spatref;
          h1 = SelectLayerByLocation layer poly h;
          nfeat = GetCount layer h1
      in if nfeat = ''0''
         then (Inl (Exn UserWarning ''No features!''),
               MessageBox (Lit ''No features were available within the selection boundaries'')
                 ''Warning'' h1)
         else let h2 = py_print (SelectedWithin nfeat ext) h1
              in case py_float nfeat of
                   Inl e \<Rightarrow> (Inl e, h2)
                 | Inr x \<Rightarrow> (Inr (py_int x, spatref), h2))"

section \<open>common/avevel.py\<close>

definition evaluate :: "layer_id \<Rightarrow> host \<Rightarrow> (exn + pyfloat) \<times> host" where
  "evaluate layer h =
     (let fld_names = layer_fields (layer_tab h layer);
          sel_data = FeatureClassToNumPyArray (layer_tab h layer) fld_names;
          h1 = (if ''VEL'' \<notin> set fld_names
                then MessageBox (Lit ''Couldn't find the field 'VEL' in the data.'') ''Error'' h
                else h)
      in case field_column sel_data ''VEL'' of
           Inl e \<Rightarrow> (Inl e, h1)
         | Inr col \<Rightarrow> (Inr (np_average col), h1))"

section \<open>InSAR_addin.py\<close>

text \<open>
  The residual estimator \<^verbatim>\<open>common.subres.evaluate(extent, layer)\<close> is a parameter
  \<open>subres_evaluate\<close> of the residual tool: it reads the extent and the layer (with its
  selection) and returns an array or raises.
\<close>

record tool =
  enabled :: bool
  tool_shape :: string
  cursor :: nat
  sar :: "layer_id option"

definition AverageDisplacementVelocity_init :: "host \<Rightarrow> tool \<times> host" where
  "AverageDisplacementVelocity_init h =
     (\<lparr>enabled = True, tool_shape = ''Rectangle'', cursor = 3, sar = None\<rparr>,
      h\<lparr>addOutputsToMap := False, overwriteOutput := True\<rparr>)"

definition SubsidenceResidual_init :: "host \<Rightarrow> tool \<times> host" where
  "SubsidenceResidual_init h =
     (\<lparr>enabled = True, tool_shape = ''Rectangle'', cursor = 3, sar = None\<rparr>,
      h\<lparr>addOutputsToMap := False, overwriteOutput := True\<rparr>)"

definition deactivate :: "tool \<Rightarrow> host \<Rightarrow> host" where
  "deactivate t h = (case sar t of None \<Rightarrow> h | Some l \<Rightarrow> ClearSelection l h)"

definition AverageDisplacementVelocity_onRectangle ::
  "extent \<Rightarrow> tool \<Rightarrow> host \<Rightarrow> (exn + unit) \<times> tool \<times> host" where
  "AverageDisplacementVelocity_onRectangle rectangle_geometry t h =
     (case verifySqueeSAR h of
        (Inl e, h1) \<Rightarrow>
          if exc_match e (ExceptStr ''Invalid layer!'') then (Inr (), t, h1) else (Inl e, t, h1)
      | (Inr (l, md), h1) \<Rightarrow>
          let t1 = t\<lparr>sar := Some l\<rparr>
          in case selectSqueeSARData rectangle_geometry l h1 of
               (Inl e, h2) \<Rightarrow>
                 if exc_match e (ExceptStr ''No features!'') then (Inr (), t1, h2)
                 else (Inl e, t1, h2)
             | (Inr (nfeat, spatref), h2) \<Rightarrow>
                 (case evaluate l h2 of
                    (Inl e, h3) \<Rightarrow> (Inl e, t1, h3)
                  | (Inr ave_vel, h3) \<Rightarrow>
                      let h4 = MessageBox (AverageInfo nfeat rectangle_geometry ave_vel) ''Info'' h3;
                          h5 = ClearSelection l h4
                      in (Inr (), t1, h5)))"

text \<open>\<^verbatim>\<open>NumPyArrayToRaster\<close>: the raster takes the output coordinate system of the environment.\<close>

definition NumPyArrayToRaster :: "ndarray \<Rightarrow> real \<times> real \<Rightarrow> real \<Rightarrow> real \<Rightarrow> host \<Rightarrow> raster" where
  "NumPyArrayToRaster res ll x_cell_size y_cell_size h =
     \<lparr>r_array = res, r_lower_left = ll, r_x_cell_size = x_cell_size,
      r_y_cell_size = y_cell_size, r_spatref = outputCoordinateSystem h\<rparr>"

definition SubsidenceResidual_onRectangle ::
  "(extent \<Rightarrow> layer_rec \<Rightarrow> exn + ndarray) \<Rightarrow> extent \<Rightarrow> tool \<Rightarrow> host
     \<Rightarrow> (exn + unit) \<times> tool \<times> host" where
  "SubsidenceResidual_onRectangle subres_evaluate rectangle_geometry t h =
     (case verifySqueeSAR h of
        (Inl e, h1) \<Rightarrow>
          if exc_match e (ExceptStr ''Invalid layer!'') then (Inr (), t, h1) else (Inl e, t, h1)
      | (Inr (l, md), h1) \<Rightarrow>
          let t1 = t\<lparr>sar := Some l\<rparr>;
              ext = rectangle_geometry
          in case selectSqueeSARData ext l h1 of
               (Inl e, h2) \<Rightarrow>
                 if exc_match e (ExceptStr ''No features!'') then (Inr (), t1, h2)
                 else (Inl e, t1, h2)
             | (Inr (nfeat, spatref), h2) \<Rightarrow>
                 if nfeat < 3
                 then (Inr (), t1,
                       MessageBox (Lit ''At least 3 features required within the selection boundaries'')
                         ''Warning'' h2)
                 else
                   (case subres_evaluate ext (layer_tab h2 l) of
                      Inl e \<Rightarrow> (Inl e, t1, h2)
                    | Inr res \<Rightarrow>
                        (case shape res of
                           [x_len, y_len] \<Rightarrow>
                             if x_len = 0 \<or> y_len = 0
                             then (Inl (Exn ZeroDivisionError ''float division by zero''), t1, h2)
                             else
                               let x_cell_size = width ext / real x_len;
                                   y_cell_size = height ext / real y_len;
                                   h3 = h2\<lparr>outputCoordinateSystem := Some spatref\<rparr>;
                                   raster = NumPyArrayToRaster res (lowerLeft ext)
                                              x_cell_size y_cell_size h3
                               in (case raster_save raster ''subsidence'' h3 of
                                     (Inl e, h4) \<Rightarrow> (Inl e, t1, h4)
                                   | (Inr u, h4) \<Rightarrow>
                                       (case data_frames h4 of
                                          [] \<Rightarrow> (Inl (Exn IndexError ''list index out of range''), t1, h4)
                                        | df # dfs \<Rightarrow>
                                            let add_layer = \<lparr>ml_source = ''subsidence'', ml_transparency = 0\<rparr>;
                                                add_layer = (if supports_transparency h4
                                                             then add_layer\<lparr>ml_transparency := 25\<rparr>
                                                             else add_layer);
                                                h5 = h4\<lparr>data_frames := (add_layer # df) # dfs\<rparr>;
                                                h6 = ClearSelection l h5
                                            in (Inr (), t1, h6)))
                         | _ \<Rightarrow> (Inl (Exn ValueError ''wrong number of values to unpack''), t1, h2))))"

section \<open>Notions used in the statements, and a small map to run the tools on\<close>

text \<open>The scatterers that the query of \<^verbatim>\<open>selectSqueeSARData\<close> selects for an extent.\<close>

definition scatterers_in :: "host \<Rightarrow> layer_id \<Rightarrow> extent \<Rightarrow> feature list" where
  "scatterers_in h l ext =
     features_within h l (extent_polygon ext (spatialReference (layer_tab h l)))"

text \<open>
  A concrete host for evaluating the tools: its \<^verbatim>\<open>"WITHIN"\<close> relation is the closed
  bounding box of the ring, its layer has the fields \<^verbatim>\<open>CODE\<close> and \<^verbatim>\<open>VEL\<close>, its
  map document has one empty data frame and its geodatabase is empty.
\<close>

definition box_within :: "polygon \<Rightarrow> real \<times> real \<Rightarrow> bool" where
  "box_within poly p =
     (list_ex (\<lambda>q. fst q \<le> fst p) (ring poly) \<and> list_ex (\<lambda>q. fst p \<le> fst q) (ring poly) \<and>
      list_ex (\<lambda>q. snd q \<le> snd p) (ring poly) \<and> list_ex (\<lambda>q. snd p \<le> snd q) (ring poly))"

definition scatterer :: "real \<Rightarrow> real \<Rightarrow> real \<Rightarrow> feature" where
  "scatterer x y v = \<lparr>location = (x, y), attr = (\<lambda>n. if n = ''VEL'' then v else 0)\<rparr>"

definition unit_square :: extent where
  "unit_square = \<lparr>XMin = 0, YMin = 0, XMax = 1, YMax = 1\<rparr>"

definition demo_layer :: "string list \<Rightarrow> feature list \<Rightarrow> layer_rec" where
  "demo_layer names fs =
     \<lparr>layer_fields = names, features = fs, spatialReference = ''WGS84'', selection = None\<rparr>"

definition demo_host :: "layer_id option \<Rightarrow> layer_rec \<Rightarrow> host" where
  "demo_host sel lyr =
     \<lparr>toc_selected = sel, layer_tab = (\<lambda>i. lyr), within_rel = box_within,
      supports_transparency = True, addOutputsToMap = True, overwriteOutput = False,
      outputCoordinateSystem = None, geodatabase = Map.empty, data_frames = [[]],
      messages = [], printed = []\<rparr>"

definition new_tool :: tool where
  "new_tool = \<lparr>enabled = True, tool_shape = ''Rectangle'', cursor = 3, sar = None\<rparr>"

text \<open>Estimators to run the residual tool with: one returns a grid of zeros of a given shape.\<close>

definition zero_grid :: "nat \<Rightarrow> nat \<Rightarrow> extent \<Rightarrow> layer_rec \<Rightarrow> exn + ndarray" where
  "zero_grid r c ext lyr = Inr \<lparr>shape = [r, c], cells = replicate (r * c) 0\<rparr>"


definition six_square :: extent where
  "six_square = \<lparr>XMin = 0, YMin = 0, XMax = 6, YMax = 6\<rparr>"



section \<open>Decimal texts of counts\<close>

lemma below_ten_cases:
  assumes "d < (10::nat)"
  obtains "d = 0" | "d = 1" | "d = 2" | "d = 3" | "d = 4" | "d = 5" | "d = 6" | "d = 7"
    | "d = 8" | "d = 9"
  using assms by atomize_elim arith

lemma digit_val_digit_char: "d < 10 \<Longrightarrow> digit_val (digit_char d) = Some d"
  by (erule below_ten_cases) (simp_all add: digit_val_def digit_char_def)

lemma digit_char_zero_iff: "d < 10 \<Longrightarrow> digit_char d = CHR ''0'' \<longleftrightarrow> d = 0"
  by (erule below_ten_cases) (simp_all add: digit_char_def)

lemma digits_value_snoc:
  "digits_value (cs @ [c]) acc =
     (case digits_value cs acc of
        None \<Rightarrow> None
      | Some m \<Rightarrow> (case digit_val c of None \<Rightarrow> None | Some d \<Rightarrow> Some (10 * m + d)))"
  by (induction cs arbitrary: acc) (auto split: option.splits)

lemma digits_value_show_nat: "digits_value (show_nat n) 0 = Some n"
proof (induction n rule: show_nat.induct)
  case (1 n)
  show ?case
  proof (cases "n < 10")
    case True
    then show ?thesis by (subst show_nat.simps) (simp add: digit_val_digit_char)
  next
    case False
    with 1 have "digits_value (show_nat (n div 10)) 0 = Some (n div 10)" by simp
    with False show ?thesis
      by (subst show_nat.simps) (simp add: digits_value_snoc digit_val_digit_char)
  qed
qed

lemma show_nat_not_Nil: "show_nat n \<noteq> []"
  by (subst show_nat.simps) simp

lemma show_nat_zero_iff: "show_nat n = ''0'' \<longleftrightarrow> n = 0"
proof (cases "n < 10")
  case True
  then show ?thesis using digit_char_zero_iff [of n] by (subst show_nat.simps) simp
next
  case False
  have "show_nat n = show_nat (n div 10) @ [digit_char (n mod 10)]"
    using False by (subst show_nat.simps) simp
  moreover have "length (show_nat (n div 10)) \<ge> 1"
    using show_nat_not_Nil [of "n div 10"] by (cases "show_nat (n div 10)") auto
  ultimately have "length (show_nat n) \<ge> 2" by simp
  with False show ?thesis by auto
qed

lemma py_float_show_nat: "py_float (show_nat n) = Inr (real n)"
  by (simp add: py_float_def show_nat_not_Nil digits_value_show_nat)

lemma py_int_of_nat: "py_int (real n) = int n"
  by (simp add: py_int_def)

section \<open>What the selection returns\<close>

lemma GetCount_after_select:
  "GetCount l (SelectLayerByLocation l poly h) = show_nat (length (features_within h l poly))"
  by (simp add: GetCount_def SelectLayerByLocation_def selected_rows_def)

lemma selectSqueeSARData_none:
  assumes "scatterers_in h l ext = []"
  shows "selectSqueeSARData ext l h =
           (Inl (Exn UserWarning ''No features!''),
            MessageBox (Lit ''No features were available within the selection boundaries'') ''Warning''
              (SelectLayerByLocation l (extent_polygon ext (spatialReference (layer_tab h l))) h))"
proof -
  have "show_nat (length (scatterers_in h l ext)) = ''0''"
    using assms by (simp add: show_nat_zero_iff)
  then show ?thesis
    unfolding selectSqueeSARData_def scatterers_in_def
    by (simp add: Let_def GetCount_after_select)
qed

lemma selectSqueeSARData_some:
  assumes "scatterers_in h l ext \<noteq> []"
  shows "selectSqueeSARData ext l h =
           (Inr (int (length (scatterers_in h l ext)), spatialReference (layer_tab h l)),
            py_print (SelectedWithin (show_nat (length (scatterers_in h l ext))) ext)
              (SelectLayerByLocation l (extent_polygon ext (spatialReference (layer_tab h l))) h))"
proof -
  have "show_nat (length (scatterers_in h l ext)) \<noteq> ''0''"
    using assms by (simp add: show_nat_zero_iff)
  then show ?thesis
    unfolding selectSqueeSARData_def scatterers_in_def
    by (simp add: Let_def GetCount_after_select py_float_show_nat py_int_of_nat)
qed

section \<open>The small map, evaluated\<close>

lemmas demo_defs = scatterers_in_def features_within_def demo_host_def demo_layer_def
  extent_polygon_def box_within_def scatterer_def unit_square_def lowerLeft_def lowerRight_def
  upperLeft_def upperRight_def

lemma demo_three_in:
  "scatterers_in (demo_host (Some 0)
      (demo_layer [''CODE'', ''VEL''] [scatterer 0 0 1, scatterer 1 0 2, scatterer 0 1 3, scatterer 2 2 10]))
      0 unit_square
   = [scatterer 0 0 1, scatterer 1 0 2, scatterer 0 1 3]"
  by (simp add: demo_defs)

lemma demo_none_in:
  "scatterers_in (demo_host (Some 0) (demo_layer [''CODE'', ''VEL''] [scatterer 2 2 10])) 0 unit_square = []"
  by (simp add: demo_defs)

section \<open>Claims about the selection (common/utils.py)\<close>

text \<open>
  C9. \<^verbatim>\<open>selectSqueeSARData\<close> raises exactly when the layer reports a count of zero
  after the selection (the text \<^verbatim>\<open>"0"\<close>), the exception then being
  \<^verbatim>\<open>UserWarning("No features!")\<close>; whenever it returns normally, the count it returns is
  the number of selected scatterers and is at least 1.
\<close>

theorem selectSqueeSARData_count_partition:
  "((\<exists>e. fst (selectSqueeSARData ext l h) = Inl e) \<longleftrightarrow>
      GetCount l (SelectLayerByLocation l
        (extent_polygon ext (spatialReference (layer_tab h l))) h) = ''0'')
   \<and> (length (scatterers_in h l ext) = 0 \<longrightarrow>
        fst (selectSqueeSARData ext l h) = Inl (Exn UserWarning ''No features!''))
   \<and> (\<forall>n s. fst (selectSqueeSARData ext l h) = Inr (n, s) \<longrightarrow>
        1 \<le> n \<and> n = int (length (scatterers_in h l ext)))"
proof (cases "scatterers_in h l ext = []")
  case True
  then have "show_nat (length (features_within h l
      (extent_polygon ext (spatialReference (layer_tab h l))))) = ''0''"
    by (simp add: scatterers_in_def show_nat_zero_iff)
  with True show ?thesis
    by (simp add: selectSqueeSARData_none GetCount_after_select)
next
  case False
  then have "show_nat (length (features_within h l
      (extent_polygon ext (spatialReference (layer_tab h l))))) \<noteq> ''0''"
    by (simp add: scatterers_in_def show_nat_zero_iff)
  moreover from False have "1 \<le> int (length (scatterers_in h l ext))"
    by (cases "scatterers_in h l ext") simp_all
  ultimately show ?thesis using False
    by (simp add: selectSqueeSARData_some GetCount_after_select)
qed

theorem selectSqueeSARData_count_partition_witness:
  "fst (selectSqueeSARData unit_square 0 (demo_host (Some 0)
      (demo_layer [''CODE'', ''VEL''] [scatterer 0 0 1, scatterer 1 0 2, scatterer 0 1 3, scatterer 2 2 10])))
     = Inr (3, ''WGS84'')
   \<and> fst (selectSqueeSARData unit_square 0 (demo_host (Some 0)
      (demo_layer [''CODE'', ''VEL''] [scatterer 2 2 10])))
     = Inl (Exn UserWarning ''No features!'')"
proof -
  let ?h3 = "demo_host (Some 0)
      (demo_layer [''CODE'', ''VEL''] [scatterer 0 0 1, scatterer 1 0 2, scatterer 0 1 3, scatterer 2 2 10])"
  let ?h0 = "demo_host (Some 0) (demo_layer [''CODE'', ''VEL''] [scatterer 2 2 10])"
  have a: "fst (selectSqueeSARData unit_square 0 ?h3) = Inr (3, ''WGS84'')"
    by (simp add: selectSqueeSARData_some demo_three_in) (simp add: demo_host_def demo_layer_def)
  have "1 \<le> (3::int) \<and> (3::int) = int (length (scatterers_in ?h3 0 unit_square))"
    using selectSqueeSARData_count_partition [of unit_square 0 ?h3] a by blast
  moreover have "fst (selectSqueeSARData unit_square 0 ?h0) = Inl (Exn UserWarning ''No features!'')"
    using selectSqueeSARData_count_partition [of unit_square 0 ?h0] demo_none_in by simp
  ultimately show ?thesis using a by simp
qed

text \<open>
  C6, as stated, fails: on a query that matches no scatterer \<^verbatim>\<open>selectSqueeSARData\<close>
  does not return an empty selection with count 0, it raises. On the small map, with the
  only scatterer at (2, 2) and the unit square as the extent:
\<close>

theorem select_zero_match_raises_counterexample:
  "fst (selectSqueeSARData unit_square 0
          (demo_host (Some 0) (demo_layer [''CODE'', ''VEL''] [scatterer 2 2 10])))
     = Inl (Exn UserWarning ''No features!'')
   \<and> \<not> (\<exists>n s. fst (selectSqueeSARData unit_square 0
          (demo_host (Some 0) (demo_layer [''CODE'', ''VEL''] [scatterer 2 2 10]))) = Inr (n, s))"
  by (simp add: selectSqueeSARData_none demo_none_in)

text \<open>
  C6, amended. A query that matches no scatterer makes \<^verbatim>\<open>selectSqueeSARData\<close> show
  one warning and raise \<^verbatim>\<open>UserWarning("No features!")\<close>, as its docstring says; the
  layer is left with the (empty) new selection.
\<close>

theorem select_zero_match_raises:
  assumes "scatterers_in h l ext = []"
  shows "fst (selectSqueeSARData ext l h) = Inl (Exn UserWarning ''No features!'')
     \<and> messages (snd (selectSqueeSARData ext l h)) =
         messages h @ [\<lparr>mb_text = Lit ''No features were available within the selection boundaries'',
                        mb_title = ''Warning''\<rparr>]
     \<and> selection (layer_tab (snd (selectSqueeSARData ext l h)) l) = Some []"
  using assms
  by (simp add: selectSqueeSARData_none MessageBox_def SelectLayerByLocation_def scatterers_in_def)

theorem select_zero_match_raises_witness:
  "fst (selectSqueeSARData unit_square 0
          (demo_host (Some 0) (demo_layer [''CODE'', ''VEL''] [scatterer 2 2 10])))
     = Inl (Exn UserWarning ''No features!'')
   \<and> messages (snd (selectSqueeSARData unit_square 0
          (demo_host (Some 0) (demo_layer [''CODE'', ''VEL''] [scatterer 2 2 10])))) =
         [\<lparr>mb_text = Lit ''No features were available within the selection boundaries'',
                        mb_title = ''Warning''\<rparr>]"
  using select_zero_match_raises [OF demo_none_in] by (simp add: demo_host_def)

section \<open>The tools, step by step\<close>

lemma verifySqueeSAR_no_layer:
  "toc_selected h = None \<Longrightarrow>
     verifySqueeSAR h =
       (Inl (Exn UserWarning ''Invalid layer!''),
        MessageBox (Lit ''Select the SqueeSAR layer from the table of content then select an area to evaluate the residual'')
          ''Warning'' h)"
  by (simp add: verifySqueeSAR_def)

lemma verifySqueeSAR_layer:
  "toc_selected h = Some l \<Longrightarrow> verifySqueeSAR h = (Inr (l, CurrentMap), h)"
  by (simp add: verifySqueeSAR_def)

lemma demo_two_in:
  "scatterers_in (demo_host (Some 0)
      (demo_layer [''CODE'', ''VEL''] [scatterer 0 0 1, scatterer 1 0 2, scatterer 2 2 10]))
      0 unit_square
   = [scatterer 0 0 1, scatterer 1 0 2]"
  by (simp add: demo_defs)

lemma demo_one_in_no_vel:
  "scatterers_in (demo_host (Some 0) (demo_layer [''CODE''] [scatterer 0 0 1])) 0 unit_square
   = [scatterer 0 0 1]"
  by (simp add: demo_defs)

lemma demo_toc: "toc_selected (demo_host s lyr) = s"
  by (simp add: demo_host_def)

lemma residual_below_three:
  assumes "toc_selected h = Some l"
    and "scatterers_in h l rect \<noteq> []"
    and "length (scatterers_in h l rect) < 3"
  shows "SubsidenceResidual_onRectangle f rect t h =
           (Inr (), t\<lparr>sar := Some l\<rparr>,
            MessageBox (Lit ''At least 3 features required within the selection boundaries'') ''Warning''
              (py_print (SelectedWithin (show_nat (length (scatterers_in h l rect))) rect)
                 (SelectLayerByLocation l (extent_polygon rect (spatialReference (layer_tab h l))) h)))"
  using assms
  by (simp add: SubsidenceResidual_onRectangle_def verifySqueeSAR_layer selectSqueeSARData_some)

lemma map_of_columns:
  "map_of (map (\<lambda>n. (n, g n)) names) k = (if k \<in> set names then Some (g k) else None)"
  by (induction names) auto

lemma evaluate_no_VEL:
  assumes "''VEL'' \<notin> set (layer_fields (layer_tab h l))"
  shows "evaluate l h =
           (Inl (Exn ValueError ''no field of name''),
            MessageBox (Lit ''Couldn't find the field 'VEL' in the data.'') ''Error'' h)"
  using assms
  by (simp add: evaluate_def Let_def FeatureClassToNumPyArray_def field_column_def map_of_columns)

lemma evaluate_VEL:
  assumes "''VEL'' \<in> set (layer_fields (layer_tab h l))"
  shows "evaluate l h =
           (Inr (np_average (map (\<lambda>f. attr f ''VEL'') (selected_rows (layer_tab h l)))), h)"
  using assms
  by (simp add: evaluate_def Let_def FeatureClassToNumPyArray_def field_column_def map_of_columns)

section \<open>Claims about the invocation boundary (InSAR_addin.py)\<close>

text \<open>
  C1 does not hold of the code. The clauses \<^verbatim>\<open>except "Invalid layer!":\<close> and
  \<^verbatim>\<open>except "No features!":\<close> name string objects, which no \<^verbatim>\<open>UserWarning\<close>
  instance matches, so the exceptions of \<^verbatim>\<open>verifySqueeSAR\<close> and
  \<^verbatim>\<open>selectSqueeSARData\<close> leave \<^verbatim>\<open>onRectangle\<close> uncaught: with no layer selected
  (any rectangle, tool and host) and, on the small map, with no scatterer in the rectangle.
  A layer without the field \<^verbatim>\<open>VEL\<close> makes the average tool end by the exception of the
  failed field lookup.
\<close>

theorem onRectangle_warnings_escape:
  "fst (AverageDisplacementVelocity_onRectangle r t (h\<lparr>toc_selected := None\<rparr>))
     = Inl (Exn UserWarning ''Invalid layer!'')
   \<and> fst (SubsidenceResidual_onRectangle f r t (h\<lparr>toc_selected := None\<rparr>))
     = Inl (Exn UserWarning ''Invalid layer!'')
   \<and> fst (AverageDisplacementVelocity_onRectangle unit_square new_tool
        (demo_host (Some 0) (demo_layer [''CODE'', ''VEL''] [scatterer 2 2 10])))
     = Inl (Exn UserWarning ''No features!'')
   \<and> fst (SubsidenceResidual_onRectangle f unit_square new_tool
        (demo_host (Some 0) (demo_layer [''CODE'', ''VEL''] [scatterer 2 2 10])))
     = Inl (Exn UserWarning ''No features!'')
   \<and> fst (AverageDisplacementVelocity_onRectangle unit_square new_tool
        (demo_host (Some 0) (demo_layer [''CODE''] [scatterer 0 0 1])))
     = Inl (Exn ValueError ''no field of name'')"
proof -
  have a: "fst (AverageDisplacementVelocity_onRectangle r t (h\<lparr>toc_selected := None\<rparr>))
     = Inl (Exn UserWarning ''Invalid layer!'')"
    by (simp add: AverageDisplacementVelocity_onRectangle_def verifySqueeSAR_no_layer)
  have b: "fst (SubsidenceResidual_onRectangle f r t (h\<lparr>toc_selected := None\<rparr>))
     = Inl (Exn UserWarning ''Invalid layer!'')"
    by (simp add: SubsidenceResidual_onRectangle_def verifySqueeSAR_no_layer)
  have c: "fst (AverageDisplacementVelocity_onRectangle unit_square new_tool
        (demo_host (Some 0) (demo_layer [''CODE'', ''VEL''] [scatterer 2 2 10])))
     = Inl (Exn UserWarning ''No features!'')"
    by (simp add: AverageDisplacementVelocity_onRectangle_def verifySqueeSAR_layer demo_toc
        selectSqueeSARData_none demo_none_in)
  have d: "fst (SubsidenceResidual_onRectangle f unit_square new_tool
        (demo_host (Some 0) (demo_layer [''CODE'', ''VEL''] [scatterer 2 2 10])))
     = Inl (Exn UserWarning ''No features!'')"
    by (simp add: SubsidenceResidual_onRectangle_def verifySqueeSAR_layer demo_toc
        selectSqueeSARData_none demo_none_in)
  have "''VEL'' \<notin> set (layer_fields (layer_tab
          (py_print (SelectedWithin (show_nat 1) unit_square)
            (SelectLayerByLocation 0 (extent_polygon unit_square ''WGS84'')
              (demo_host (Some 0) (demo_layer [''CODE''] [scatterer 0 0 1])))) 0))"
    by (simp add: py_print_def SelectLayerByLocation_def demo_host_def demo_layer_def)
  then have e: "fst (AverageDisplacementVelocity_onRectangle unit_square new_tool
        (demo_host (Some 0) (demo_layer [''CODE''] [scatterer 0 0 1])))
     = Inl (Exn ValueError ''no field of name'')"
    apply (simp add: AverageDisplacementVelocity_onRectangle_def verifySqueeSAR_layer demo_toc
        selectSqueeSARData_some demo_one_in_no_vel)
    apply (simp add: demo_host_def demo_layer_def evaluate_no_VEL)
    done
  from a b c d e show ?thesis by blast
qed

lemma average_success:
  assumes "toc_selected h = Some l"
    and "scatterers_in h l rect \<noteq> []"
    and "''VEL'' \<in> set (layer_fields (layer_tab h l))"
  shows "AverageDisplacementVelocity_onRectangle rect t h =
           (Inr (), t\<lparr>sar := Some l\<rparr>,
            ClearSelection l
              (MessageBox
                 (AverageInfo (int (length (scatterers_in h l rect))) rect
                    (np_average (map (\<lambda>f. attr f ''VEL'') (scatterers_in h l rect))))
                 ''Info''
                 (py_print (SelectedWithin (show_nat (length (scatterers_in h l rect))) rect)
                    (SelectLayerByLocation l
                       (extent_polygon rect (spatialReference (layer_tab h l))) h))))"
proof -
  let ?h2 = "py_print (SelectedWithin (show_nat (length (scatterers_in h l rect))) rect)
               (SelectLayerByLocation l (extent_polygon rect (spatialReference (layer_tab h l))) h)"
  have "''VEL'' \<in> set (layer_fields (layer_tab ?h2 l))"
    using assms(3) by (simp add: py_print_def SelectLayerByLocation_def)
  then have "evaluate l ?h2 =
      (Inr (np_average (map (\<lambda>f. attr f ''VEL'') (selected_rows (layer_tab ?h2 l)))), ?h2)"
    by (rule evaluate_VEL)
  moreover have "selected_rows (layer_tab ?h2 l) = scatterers_in h l rect"
    by (simp add: py_print_def SelectLayerByLocation_def selected_rows_def scatterers_in_def)
  ultimately show ?thesis
    using assms(1,2)
    by (simp add: AverageDisplacementVelocity_onRectangle_def verifySqueeSAR_layer
        selectSqueeSARData_some)
qed

text \<open>
  C2 does not hold of the code. With two scatterers in the rectangle the residual tool
  shows its warning and returns at once: the two scatterers stay selected on the layer.
  The average tool, run on the same map, ends with the selection cleared.
\<close>

theorem residual_early_exit_keeps_selection:
  "fst (SubsidenceResidual_onRectangle f unit_square new_tool
     (demo_host (Some 0)
        (demo_layer [''CODE'', ''VEL''] [scatterer 0 0 1, scatterer 1 0 2, scatterer 2 2 10])))
     = Inr ()
   \<and> selection (layer_tab (snd (snd (SubsidenceResidual_onRectangle f unit_square new_tool
     (demo_host (Some 0)
        (demo_layer [''CODE'', ''VEL''] [scatterer 0 0 1, scatterer 1 0 2, scatterer 2 2 10]))))) 0)
     = Some [scatterer 0 0 1, scatterer 1 0 2]
   \<and> selection (layer_tab (snd (snd (AverageDisplacementVelocity_onRectangle unit_square new_tool
     (demo_host (Some 0)
        (demo_layer [''CODE'', ''VEL''] [scatterer 0 0 1, scatterer 1 0 2, scatterer 2 2 10]))))) 0)
     = None"
proof -
  let ?h = "demo_host (Some 0)
        (demo_layer [''CODE'', ''VEL''] [scatterer 0 0 1, scatterer 1 0 2, scatterer 2 2 10])"
  have vel: "''VEL'' \<in> set (layer_fields (layer_tab ?h 0))"
    by (simp add: demo_host_def demo_layer_def)
  have "selection (layer_tab (snd (snd (AverageDisplacementVelocity_onRectangle unit_square
          new_tool ?h))) 0) = None"
    by (simp add: average_success [OF demo_toc _ vel] demo_two_in ClearSelection_def)
  then show ?thesis
    by (simp add: residual_below_three demo_toc demo_two_in MessageBox_def py_print_def
      SelectLayerByLocation_def scatterers_in_def [symmetric])
qed

text \<open>
  C7. With a layer selected and at least one scatterer in the rectangle: when there are
  fewer than 3, the residual tool shows the warning "At least 3 features required ...",
  returns, and leaves the geodatabase and the data frames as they were (no grid); the
  average tool has no such minimum: whatever the count, with the field \<^verbatim>\<open>VEL\<close> present it
  ends normally and shows the count and the average velocity.
\<close>

theorem residual_needs_three_scatterers:
  assumes "toc_selected h = Some l"
    and "0 < length (scatterers_in h l rect)"
  shows "(length (scatterers_in h l rect) < 3 \<longrightarrow>
            fst (SubsidenceResidual_onRectangle f rect t h) = Inr ()
          \<and> messages (snd (snd (SubsidenceResidual_onRectangle f rect t h))) =
              messages h @ [\<lparr>mb_text = Lit ''At least 3 features required within the selection boundaries'',
                             mb_title = ''Warning''\<rparr>]
          \<and> geodatabase (snd (snd (SubsidenceResidual_onRectangle f rect t h))) = geodatabase h
          \<and> data_frames (snd (snd (SubsidenceResidual_onRectangle f rect t h))) = data_frames h)
       \<and> (''VEL'' \<in> set (layer_fields (layer_tab h l)) \<longrightarrow>
            fst (AverageDisplacementVelocity_onRectangle rect t h) = Inr ()
          \<and> messages (snd (snd (AverageDisplacementVelocity_onRectangle rect t h))) =
              messages h @
                [\<lparr>mb_text = AverageInfo (int (length (scatterers_in h l rect))) rect
                     (np_average (map (\<lambda>f. attr f ''VEL'') (scatterers_in h l rect))),
                  mb_title = ''Info''\<rparr>])"
proof -
  from assms(2) have ne: "scatterers_in h l rect \<noteq> []" by auto
  have res: "length (scatterers_in h l rect) < 3 \<Longrightarrow>
            fst (SubsidenceResidual_onRectangle f rect t h) = Inr ()
          \<and> messages (snd (snd (SubsidenceResidual_onRectangle f rect t h))) =
              messages h @ [\<lparr>mb_text = Lit ''At least 3 features required within the selection boundaries'',
                             mb_title = ''Warning''\<rparr>]
          \<and> geodatabase (snd (snd (SubsidenceResidual_onRectangle f rect t h))) = geodatabase h
          \<and> data_frames (snd (snd (SubsidenceResidual_onRectangle f rect t h))) = data_frames h"
    by (simp add: residual_below_three [OF assms(1) ne] MessageBox_def py_print_def
        SelectLayerByLocation_def)
  have ave: "''VEL'' \<in> set (layer_fields (layer_tab h l)) \<Longrightarrow>
            fst (AverageDisplacementVelocity_onRectangle rect t h) = Inr ()
          \<and> messages (snd (snd (AverageDisplacementVelocity_onRectangle rect t h))) =
              messages h @
                [\<lparr>mb_text = AverageInfo (int (length (scatterers_in h l rect))) rect
                     (np_average (map (\<lambda>f. attr f ''VEL'') (scatterers_in h l rect))),
                  mb_title = ''Info''\<rparr>]"
    by (simp add: average_success [OF assms(1) ne] MessageBox_def py_print_def
        SelectLayerByLocation_def ClearSelection_def)
  from res ave show ?thesis by blast
qed



theorem residual_needs_three_scatterers_witness:
  "fst (SubsidenceResidual_onRectangle (zero_grid 2 2) unit_square new_tool
     (demo_host (Some 0)
        (demo_layer [''CODE'', ''VEL''] [scatterer 0 0 1, scatterer 1 0 2, scatterer 2 2 10])))
     = Inr ()
   \<and> messages (snd (snd (SubsidenceResidual_onRectangle (zero_grid 2 2) unit_square new_tool
     (demo_host (Some 0)
        (demo_layer [''CODE'', ''VEL''] [scatterer 0 0 1, scatterer 1 0 2, scatterer 2 2 10]))))) =
       [\<lparr>mb_text = Lit ''At least 3 features required within the selection boundaries'',
         mb_title = ''Warning''\<rparr>]
   \<and> geodatabase (snd (snd (SubsidenceResidual_onRectangle (zero_grid 2 2) unit_square new_tool
     (demo_host (Some 0)
        (demo_layer [''CODE'', ''VEL''] [scatterer 0 0 1, scatterer 1 0 2, scatterer 2 2 10])))))
       ''subsidence'' = None
   \<and> messages (snd (snd (AverageDisplacementVelocity_onRectangle unit_square new_tool
     (demo_host (Some 0)
        (demo_layer [''CODE'', ''VEL''] [scatterer 0 0 1, scatterer 1 0 2, scatterer 2 2 10]))))) =
       [\<lparr>mb_text = AverageInfo 2 unit_square (Fin (3 / 2)), mb_title = ''Info''\<rparr>]"
proof -
  let ?h = "demo_host (Some 0)
        (demo_layer [''CODE'', ''VEL''] [scatterer 0 0 1, scatterer 1 0 2, scatterer 2 2 10])"
  have pos: "0 < length (scatterers_in ?h 0 unit_square)"
    by (simp add: demo_two_in)
  have small: "length (scatterers_in ?h 0 unit_square) < 3"
    by (simp add: demo_two_in)
  have vel: "''VEL'' \<in> set (layer_fields (layer_tab ?h 0))"
    by (simp add: demo_host_def demo_layer_def)
  have empty: "messages ?h = [] \<and> geodatabase ?h = Map.empty"
    by (simp add: demo_host_def)
  have avg: "np_average [attr (scatterer 0 0 1) ''VEL'', attr (scatterer 1 0 2) ''VEL''] = Fin (3 / 2)"
    by (simp add: np_average_def scatterer_def)
  note th = residual_needs_three_scatterers [OF demo_toc pos, of "zero_grid 2 2" new_tool]
  from th small vel show ?thesis
    by (simp add: empty demo_two_in avg)
qed

section \<open>Claims about the average velocity (common/avevel.py)\<close>

lemma scatterer_VEL: "attr (scatterer x y v) ''VEL'' = v"
  by (simp add: scatterer_def)

lemma sum_list_const_map: "(\<forall>f\<in>set rows. g f = (v::real)) \<Longrightarrow> sum_list (map g rows) = real (length rows) * v"
  by (induction rows) (auto simp: algebra_simps)

text \<open>
  C3. When the layer has no field named \<^verbatim>\<open>VEL\<close>, \<^verbatim>\<open>evaluate\<close> shows the error
  message "Couldn't find the field 'VEL' in the data." and ends with an exception: it
  returns no average, computed or defaulted.
\<close>

theorem evaluate_missing_VEL:
  assumes "''VEL'' \<notin> set (layer_fields (layer_tab h l))"
  shows "(\<exists>e. fst (evaluate l h) = Inl e)
     \<and> (\<forall>a. fst (evaluate l h) \<noteq> Inr a)
     \<and> messages (snd (evaluate l h)) =
         messages h @ [\<lparr>mb_text = Lit ''Couldn't find the field 'VEL' in the data.'',
                        mb_title = ''Error''\<rparr>]"
  using assms by (simp add: evaluate_no_VEL MessageBox_def)

theorem evaluate_missing_VEL_witness:
  "fst (evaluate 0 (demo_host (Some 0) (demo_layer [''CODE''] [scatterer 0 0 1])))
     = Inl (Exn ValueError ''no field of name'')
   \<and> messages (snd (evaluate 0 (demo_host (Some 0) (demo_layer [''CODE''] [scatterer 0 0 1])))) =
         [\<lparr>mb_text = Lit ''Couldn't find the field 'VEL' in the data.'', mb_title = ''Error''\<rparr>]"
proof -
  let ?h = "demo_host (Some 0) (demo_layer [''CODE''] [scatterer 0 0 1])"
  have novel: "''VEL'' \<notin> set (layer_fields (layer_tab ?h 0))"
    by (simp add: demo_host_def demo_layer_def)
  have "messages ?h = []" by (simp add: demo_host_def)
  with evaluate_missing_VEL [OF novel] show ?thesis
    by (simp add: evaluate_no_VEL [OF novel])
qed

text \<open>
  C8. With the field \<^verbatim>\<open>VEL\<close> present and at least one row, \<^verbatim>\<open>evaluate\<close> returns the
  arithmetic mean of the velocities of the rows; when all rows have the same velocity
  \<open>v\<close> it returns \<open>v\<close>. (Floats are taken as real numbers.) The velocities 1, 2, 3
  give 2.
\<close>

theorem evaluate_is_mean:
  assumes "''VEL'' \<in> set (layer_fields (layer_tab h l))"
    and "selected_rows (layer_tab h l) \<noteq> []"
  shows "fst (evaluate l h) =
           Inr (Fin (sum_list (map (\<lambda>f. attr f ''VEL'') (selected_rows (layer_tab h l)))
                     / real (length (selected_rows (layer_tab h l)))))
     \<and> (\<forall>v. (\<forall>f\<in>set (selected_rows (layer_tab h l)). attr f ''VEL'' = v) \<longrightarrow>
            fst (evaluate l h) = Inr (Fin v))"
proof -
  let ?rows = "selected_rows (layer_tab h l)"
  have mean: "fst (evaluate l h) =
      Inr (Fin (sum_list (map (\<lambda>f. attr f ''VEL'') ?rows) / real (length ?rows)))"
    using assms by (simp add: evaluate_VEL np_average_def)
  have "fst (evaluate l h) = Inr (Fin v)" if "\<forall>f\<in>set ?rows. attr f ''VEL'' = v" for v
  proof -
    from that have "sum_list (map (\<lambda>f. attr f ''VEL'') ?rows) = real (length ?rows) * v"
      by (rule sum_list_const_map)
    moreover from assms(2) have "real (length ?rows) \<noteq> 0" by simp
    ultimately show ?thesis using mean by simp
  qed
  with mean show ?thesis by blast
qed

theorem evaluate_is_mean_witness:
  "fst (evaluate 0 (demo_host (Some 0)
          (demo_layer [''CODE'', ''VEL''] [scatterer 0 0 1, scatterer 1 0 2, scatterer 0 1 3])))
     = Inr (Fin 2)
   \<and> fst (evaluate 0 (demo_host (Some 0)
          (demo_layer [''CODE'', ''VEL''] [scatterer 0 0 7, scatterer 1 0 7, scatterer 0 1 7, scatterer 1 1 7])))
     = Inr (Fin 7)"
proof -
  let ?h = "demo_host (Some 0)
          (demo_layer [''CODE'', ''VEL''] [scatterer 0 0 1, scatterer 1 0 2, scatterer 0 1 3])"
  let ?k = "demo_host (Some 0)
          (demo_layer [''CODE'', ''VEL''] [scatterer 0 0 7, scatterer 1 0 7, scatterer 0 1 7, scatterer 1 1 7])"
  have rows_h: "selected_rows (layer_tab ?h 0) = [scatterer 0 0 1, scatterer 1 0 2, scatterer 0 1 3]"
    by (simp add: selected_rows_def demo_host_def demo_layer_def)
  have rows_k: "selected_rows (layer_tab ?k 0) =
      [scatterer 0 0 7, scatterer 1 0 7, scatterer 0 1 7, scatterer 1 1 7]"
    by (simp add: selected_rows_def demo_host_def demo_layer_def)
  have vel_h: "''VEL'' \<in> set (layer_fields (layer_tab ?h 0))"
    by (simp add: demo_host_def demo_layer_def)
  have vel_k: "''VEL'' \<in> set (layer_fields (layer_tab ?k 0))"
    by (simp add: demo_host_def demo_layer_def)
  have ne_h: "selected_rows (layer_tab ?h 0) \<noteq> []" by (simp add: rows_h)
  have mean3: "sum_list (map (\<lambda>f. attr f ''VEL'') [scatterer 0 0 1, scatterer 1 0 2, scatterer 0 1 3])
      / real (length [scatterer 0 0 1, scatterer 1 0 2, scatterer 0 1 3]) = 2"
    by (simp add: scatterer_VEL)
  have a: "fst (evaluate 0 ?h) = Inr (Fin 2)"
    using evaluate_is_mean [OF vel_h ne_h, THEN conjunct1] unfolding rows_h mean3 .
  have "\<forall>f\<in>set (selected_rows (layer_tab ?k 0)). attr f ''VEL'' = 7"
    unfolding rows_k by (simp add: scatterer_VEL)
  moreover have "selected_rows (layer_tab ?k 0) \<noteq> []" by (simp add: rows_k)
  ultimately have b: "fst (evaluate 0 ?k) = Inr (Fin 7)"
    using evaluate_is_mean [OF vel_k] by blast
  from a b show ?thesis by simp
qed

section \<open>The residual tool on three or more scatterers\<close>

lemma layer_after_select:
  "layer_tab (py_print x (SelectLayerByLocation l
       (extent_polygon rect (spatialReference (layer_tab h l))) h)) l
   = (layer_tab h l)\<lparr>selection := Some (scatterers_in h l rect)\<rparr>"
  by (simp add: py_print_def SelectLayerByLocation_def scatterers_in_def)

lemma residual_success:
  assumes toc: "toc_selected h = Some l"
    and n3: "3 \<le> length (scatterers_in h l rect)"
    and est: "f rect ((layer_tab h l)\<lparr>selection := Some (scatterers_in h l rect)\<rparr>) = Inr res"
    and sh: "shape res = [a, b]" "a \<noteq> 0" "b \<noteq> 0"
    and ow: "overwriteOutput h \<or> geodatabase h ''subsidence'' = None"
    and df: "data_frames h = d # ds"
  shows "SubsidenceResidual_onRectangle f rect t h =
    (Inr (), t\<lparr>sar := Some l\<rparr>,
     ClearSelection l
       ((py_print (SelectedWithin (show_nat (length (scatterers_in h l rect))) rect)
          (SelectLayerByLocation l (extent_polygon rect (spatialReference (layer_tab h l))) h))
        \<lparr>outputCoordinateSystem := Some (spatialReference (layer_tab h l)),
         geodatabase := (geodatabase h)(''subsidence'' \<mapsto>
            \<lparr>r_array = res, r_lower_left = lowerLeft rect,
             r_x_cell_size = width rect / real a, r_y_cell_size = height rect / real b,
             r_spatref = Some (spatialReference (layer_tab h l))\<rparr>),
         data_frames :=
            (\<lparr>ml_source = ''subsidence'',
              ml_transparency = (if supports_transparency h then 25 else 0)\<rparr> # d) # ds\<rparr>))"
proof -
  from n3 have ne: "scatterers_in h l rect \<noteq> []" by auto
  from n3 have ge: "\<not> length (scatterers_in h l rect) < 3" by simp
  let ?h2 = "py_print (SelectedWithin (show_nat (length (scatterers_in h l rect))) rect)
          (SelectLayerByLocation l (extent_polygon rect (spatialReference (layer_tab h l))) h)"
  let ?h3 = "?h2\<lparr>outputCoordinateSystem := Some (spatialReference (layer_tab h l))\<rparr>"
  have env: "overwriteOutput ?h3 = overwriteOutput h" "geodatabase ?h3 = geodatabase h"
    "data_frames ?h2 = data_frames h" "supports_transparency ?h2 = supports_transparency h"
    by (simp_all add: py_print_def SelectLayerByLocation_def)
  have save: "raster_save r ''subsidence'' ?h3 =
      (Inr (), ?h3\<lparr>geodatabase := (geodatabase h)(''subsidence'' \<mapsto> r)\<rparr>)" for r
    using ow by (auto simp add: raster_save_def env)
  show ?thesis
    unfolding SubsidenceResidual_onRectangle_def
    by (simp add: verifySqueeSAR_layer [OF toc] selectSqueeSARData_some [OF ne] ge
        layer_after_select est sh save df NumPyArrayToRaster_def env Let_def)
qed





lemma demo_three_in_six:
  "scatterers_in (demo_host (Some 0)
      (demo_layer [''CODE'', ''VEL''] [scatterer 0 0 1, scatterer 1 0 2, scatterer 0 1 3]))
      0 six_square
   = [scatterer 0 0 1, scatterer 1 0 2, scatterer 0 1 3]"
  by (simp add: scatterers_in_def features_within_def demo_host_def demo_layer_def
      extent_polygon_def box_within_def scatterer_def six_square_def lowerLeft_def lowerRight_def
      upperLeft_def upperRight_def)

lemma demo_frames: "data_frames (demo_host s lyr) = [[]]"
  "geodatabase (demo_host s lyr) = Map.empty" "layer_tab (demo_host s lyr) i = lyr"
  "supports_transparency (demo_host s lyr)" "messages (demo_host s lyr) = []"
  by (simp_all add: demo_host_def)

section \<open>Claims about the residual raster (InSAR_addin.py)\<close>

text \<open>
  C4 does not hold of the code. The cell sizes are the extent's width divided by the
  first axis of the array (its rows) and the height divided by the second (its columns).
  For an array of 2 rows and 3 columns over the square of side 6, the raster is saved with
  an x cell size of 3 and a y cell size of 2, where width / columns is 2 and
  height / rows is 3.
\<close>

theorem cell_sizes_follow_array_axes:
  "map_option (\<lambda>r. (shape (r_array r), r_x_cell_size r, r_y_cell_size r))
     (geodatabase (snd (snd (SubsidenceResidual_onRectangle (zero_grid 2 3) six_square new_tool
        (demo_host (Some 0)
           (demo_layer [''CODE'', ''VEL''] [scatterer 0 0 1, scatterer 1 0 2, scatterer 0 1 3])))))
        ''subsidence'')
     = Some ([2, 3], 3, 2)
   \<and> width six_square / real 3 = 2 \<and> height six_square / real 2 = 3"
proof -
  let ?h = "demo_host (Some 0)
           (demo_layer [''CODE'', ''VEL''] [scatterer 0 0 1, scatterer 1 0 2, scatterer 0 1 3])"
  have toc: "toc_selected ?h = Some 0" by (simp add: demo_toc)
  have n3: "3 \<le> length (scatterers_in ?h 0 six_square)"
    by (simp add: demo_three_in_six)
  have est: "zero_grid 2 3 six_square
      ((layer_tab ?h 0)\<lparr>selection := Some (scatterers_in ?h 0 six_square)\<rparr>)
      = Inr \<lparr>shape = [2, 3], cells = replicate (2 * 3) 0\<rparr>"
    by (simp add: zero_grid_def)
  have run: "SubsidenceResidual_onRectangle (zero_grid 2 3) six_square new_tool ?h = 
    (Inr (), new_tool\<lparr>sar := Some 0\<rparr>,
     ClearSelection 0
       ((py_print (SelectedWithin (show_nat (length (scatterers_in ?h 0 six_square))) six_square)
          (SelectLayerByLocation 0 (extent_polygon six_square (spatialReference (layer_tab ?h 0))) ?h))
        \<lparr>outputCoordinateSystem := Some (spatialReference (layer_tab ?h 0)),
         geodatabase := (geodatabase ?h)(''subsidence'' \<mapsto>
            \<lparr>r_array = \<lparr>shape = [2, 3], cells = replicate (2 * 3) 0\<rparr>,
             r_lower_left = lowerLeft six_square,
             r_x_cell_size = width six_square / real 2, r_y_cell_size = height six_square / real 3,
             r_spatref = Some (spatialReference (layer_tab ?h 0))\<rparr>),
         data_frames :=
            (\<lparr>ml_source = ''subsidence'',
              ml_transparency = (if supports_transparency ?h then 25 else 0)\<rparr> # []) # []\<rparr>))"
    by (rule residual_success [where f = "zero_grid 2 3", OF toc n3 est])
      (simp_all add: demo_frames)
  show ?thesis
    unfolding run by (simp add: ClearSelection_def width_def height_def six_square_def)
qed

lemma scatterers_in_cong:
  assumes "within_rel h' = within_rel h"
    and "features (layer_tab h' l) = features (layer_tab h l)"
    and "spatialReference (layer_tab h' l) = spatialReference (layer_tab h l)"
  shows "scatterers_in h' l e = scatterers_in h l e"
  using assms by (simp add: scatterers_in_def features_within_def)

lemma residual_success_state:
  assumes toc: "toc_selected h = Some l"
    and n3: "3 \<le> length (scatterers_in h l rect)"
    and est: "f rect ((layer_tab h l)\<lparr>selection := Some (scatterers_in h l rect)\<rparr>) = Inr res"
    and sh: "shape res = [a, b]" "a \<noteq> 0" "b \<noteq> 0"
    and ow: "overwriteOutput h \<or> geodatabase h ''subsidence'' = None"
    and df: "data_frames h = d # ds"
  shows "fst (SubsidenceResidual_onRectangle f rect t h) = Inr ()"
    and "geodatabase (snd (snd (SubsidenceResidual_onRectangle f rect t h))) =
      (geodatabase h)(''subsidence'' \<mapsto>
            \<lparr>r_array = res, r_lower_left = lowerLeft rect,
             r_x_cell_size = width rect / real a, r_y_cell_size = height rect / real b,
             r_spatref = Some (spatialReference (layer_tab h l))\<rparr>)"
    and "overwriteOutput (snd (snd (SubsidenceResidual_onRectangle f rect t h))) = overwriteOutput h"
    and "toc_selected (snd (snd (SubsidenceResidual_onRectangle f rect t h))) = toc_selected h"
    and "within_rel (snd (snd (SubsidenceResidual_onRectangle f rect t h))) = within_rel h"
    and "layer_tab (snd (snd (SubsidenceResidual_onRectangle f rect t h))) l =
           (layer_tab h l)\<lparr>selection := None\<rparr>"
    and "data_frames (snd (snd (SubsidenceResidual_onRectangle f rect t h))) =
           (\<lparr>ml_source = ''subsidence'',
             ml_transparency = (if supports_transparency h then 25 else 0)\<rparr> # d) # ds"
  unfolding residual_success [where f = f, OF assms]
  by (simp_all add: ClearSelection_def py_print_def SelectLayerByLocation_def)

text \<open>
  C10. \<^verbatim>\<open>SubsidenceResidual.__init__\<close> switches \<^verbatim>\<open>env.overwriteOutput\<close> on. With it on,
  every invocation that gets an array of two non-empty axes from the estimator (layer
  selected, at least 3 scatterers, a data frame in the map) ends normally and leaves the
  geodatabase changed at the one name \<^verbatim>\<open>subsidence\<close>, which now holds the raster of this
  invocation whatever was stored there before; overwriting stays on. The name is a
  constant of the tool, not an input of the invocation.
\<close>

theorem residual_saves_as_subsidence:
  assumes "toc_selected h = Some l"
    and "3 \<le> length (scatterers_in h l rect)"
    and "f rect ((layer_tab h l)\<lparr>selection := Some (scatterers_in h l rect)\<rparr>) = Inr res"
    and "shape res = [a, b]" and "a \<noteq> 0" and "b \<noteq> 0"
    and "data_frames h \<noteq> []"
    and "overwriteOutput h"
  shows "overwriteOutput (snd (SubsidenceResidual_init h0))
     \<and> fst (SubsidenceResidual_onRectangle f rect t h) = Inr ()
     \<and> geodatabase (snd (snd (SubsidenceResidual_onRectangle f rect t h))) =
          (geodatabase h)(''subsidence'' \<mapsto>
            \<lparr>r_array = res, r_lower_left = lowerLeft rect,
             r_x_cell_size = width rect / real a, r_y_cell_size = height rect / real b,
             r_spatref = Some (spatialReference (layer_tab h l))\<rparr>)
     \<and> overwriteOutput (snd (snd (SubsidenceResidual_onRectangle f rect t h)))"
proof -
  from assms(7) obtain d ds where df: "data_frames h = d # ds"
    by (cases "data_frames h") auto
  from assms(8) have ow: "overwriteOutput h \<or> geodatabase h ''subsidence'' = None" by simp
  note st = residual_success_state [where f = f, OF assms(1-6) ow df, of t]
  have "overwriteOutput (snd (SubsidenceResidual_init h0))"
    by (simp add: SubsidenceResidual_init_def)
  with st(1,2,3) assms(8) show ?thesis by simp
qed


lemma demo_three_only:
  "scatterers_in (demo_host (Some 0)
      (demo_layer [''CODE'', ''VEL''] [scatterer 0 0 1, scatterer 1 0 2, scatterer 0 1 3]))
      0 unit_square
   = [scatterer 0 0 1, scatterer 1 0 2, scatterer 0 1 3]"
  by (simp add: demo_defs)

theorem residual_saves_as_subsidence_witness:
  "map_option (shape \<circ> r_array)
     (geodatabase
        (snd (snd (SubsidenceResidual_onRectangle (zero_grid 2 2) unit_square new_tool
           (snd (SubsidenceResidual_init (demo_host (Some 0)
              (demo_layer [''CODE'', ''VEL'']
                 [scatterer 0 0 1, scatterer 1 0 2, scatterer 0 1 3])))))))
        ''subsidence'') = Some [2, 2]
   \<and> map_option (shape \<circ> r_array)
     (geodatabase
        (snd (snd (SubsidenceResidual_onRectangle (zero_grid 3 3) unit_square new_tool
           (snd (snd (SubsidenceResidual_onRectangle (zero_grid 2 2) unit_square new_tool
              (snd (SubsidenceResidual_init (demo_host (Some 0)
                 (demo_layer [''CODE'', ''VEL'']
                    [scatterer 0 0 1, scatterer 1 0 2, scatterer 0 1 3]))))))))))
        ''subsidence'') = Some [3, 3]"
proof -
  let ?D = "demo_host (Some 0)
              (demo_layer [''CODE'', ''VEL''] [scatterer 0 0 1, scatterer 1 0 2, scatterer 0 1 3])"
  let ?H0 = "snd (SubsidenceResidual_init ?D)"
  let ?H1 = "snd (snd (SubsidenceResidual_onRectangle (zero_grid 2 2) unit_square new_tool ?H0))"
  have in0: "scatterers_in ?H0 0 unit_square = scatterers_in ?D 0 unit_square"
    by (rule scatterers_in_cong) (simp_all add: SubsidenceResidual_init_def)
  have toc0: "toc_selected ?H0 = Some 0"
    by (simp add: SubsidenceResidual_init_def demo_toc)
  have n0: "3 \<le> length (scatterers_in ?H0 0 unit_square)"
    by (simp add: in0 demo_three_only)
  have est0: "zero_grid 2 2 unit_square
      ((layer_tab ?H0 0)\<lparr>selection := Some (scatterers_in ?H0 0 unit_square)\<rparr>)
      = Inr \<lparr>shape = [2, 2], cells = replicate (2 * 2) 0\<rparr>"
    by (simp add: zero_grid_def)
  have ow0: "overwriteOutput ?H0 \<or> geodatabase ?H0 ''subsidence'' = None"
    by (simp add: SubsidenceResidual_init_def)
  have df0: "data_frames ?H0 = [] # []"
    by (simp add: SubsidenceResidual_init_def demo_frames)
  have sh0: "shape \<lparr>shape = [2, 2], cells = replicate (2 * 2) (0::real)\<rparr> = [2, 2]"
    by simp
  have two: "(2::nat) \<noteq> 0" by simp
  note st = residual_success_state [where f = "zero_grid 2 2" and t = new_tool,
      OF toc0 n0 est0 sh0 two two ow0 df0]
  have first: "geodatabase ?H1 ''subsidence'' =
      Some \<lparr>r_array = \<lparr>shape = [2, 2], cells = replicate (2 * 2) 0\<rparr>,
            r_lower_left = lowerLeft unit_square,
            r_x_cell_size = width unit_square / real (2::nat),
            r_y_cell_size = height unit_square / real (2::nat),
            r_spatref = Some (spatialReference (layer_tab ?H0 0))\<rparr>"
    by (simp add: st(2))
  have toc1: "toc_selected ?H1 = Some 0"
    by (simp add: st(4) toc0)
  have owH0: "overwriteOutput ?H0"
    by (simp add: SubsidenceResidual_init_def)
  have ow1: "overwriteOutput ?H1"
    by (simp add: st(3) owH0)
  have df1: "data_frames ?H1 \<noteq> []"
    by (simp add: st(7))
  have w1: "within_rel ?H1 = within_rel ?H0"
    by (rule st(5))
  have l1: "layer_tab ?H1 0 = (layer_tab ?H0 0)\<lparr>selection := None\<rparr>"
    by (rule st(6))
  have in1: "scatterers_in ?H1 0 unit_square = scatterers_in ?H0 0 unit_square"
    by (rule scatterers_in_cong) (simp_all add: w1 l1)
  have n1: "3 \<le> length (scatterers_in ?H1 0 unit_square)"
    by (simp add: in1 in0 demo_three_only)
  have est1: "zero_grid 3 3 unit_square
      ((layer_tab ?H1 0)\<lparr>selection := Some (scatterers_in ?H1 0 unit_square)\<rparr>)
      = Inr \<lparr>shape = [3, 3], cells = replicate (3 * 3) 0\<rparr>"
    by (simp add: zero_grid_def)
  have sh1: "shape \<lparr>shape = [3, 3], cells = replicate (3 * 3) (0::real)\<rparr> = [3, 3]"
    by simp
  have three: "(3::nat) \<noteq> 0" by simp
  from residual_saves_as_subsidence [where f = "zero_grid 3 3" and t = new_tool,
      OF toc1 n1 est1 sh1 three three df1 ow1]
  have second: "geodatabase
      (snd (snd (SubsidenceResidual_onRectangle (zero_grid 3 3) unit_square new_tool ?H1)))
      ''subsidence'' =
      Some \<lparr>r_array = \<lparr>shape = [3, 3], cells = replicate (3 * 3) 0\<rparr>,
            r_lower_left = lowerLeft unit_square,
            r_x_cell_size = width unit_square / real (3::nat),
            r_y_cell_size = height unit_square / real (3::nat),
            r_spatref = Some (spatialReference (layer_tab ?H1 0))\<rparr>"
    by simp
  show ?thesis
    unfolding first second by simp
qed






end
